theory Spec2Isabelle
  imports Main "HOL-Library.Word"
begin

section \<open>Errors\<close>

text \<open>
  The error values the OTP code paths return.  Go compares errors by identity, so the
  sentinels of package \<open>models\<close> (internal/models/otp.go) and those of package
  \<open>service\<close> (internal/service/otp_service.go) are different values although their
  messages agree.  \<open>ErrRedis\<close> stands for any error of a Redis round trip other than
  \<open>redis.Nil\<close>, \<open>ErrDB\<close> for any database error other than record-not-found,
  \<open>ErrUUIDParse\<close> for the error of \<open>uuid.Parse\<close>, \<open>ErrInvalidOrExpired\<close> for the
  \<open>fmt.Errorf("invalid or expired OTP")\<close> of package \<open>auth\<close>, and \<open>Panic\<close> for a
  run-time panic.
\<close>

datatype error =
    models_ErrInvalidOTP
  | models_ErrOTPExpired
  | service_ErrInvalidOTP
  | service_ErrOTPExpired
  | service_ErrRateLimitExceeded
  | repository_ErrTrainerNotFound
  | gorm_ErrRecordNotFound
  | ErrInvalidOrExpired
  | ErrUUIDParse
  | ErrRedis
  | ErrDB
  | Panic

section \<open>Go strings and \<open>json.Marshal\<close> of a string\<close>

text \<open>
  A Go string is a byte sequence: \<open>string\<close> here, one \<open>char\<close> per byte.
  \<open>redisClient.Set\<close> stores \<open>json.Marshal(value)\<close>; every value the OTP service
  passes is a Go string, whose JSON encoding is the string between double quotes, with
  the double quote, the backslash, control bytes, the angle brackets, the ampersand,
  invalid UTF-8 and U+2028/U+2029 escaped (encoding/json with HTML escaping on, as
  \<open>json.Marshal\<close> has it; backspace and form feed in their short forms, as since
  Go 1.22).
\<close>

definition hex :: "nat \<Rightarrow> char" where
  "hex n = ''0123456789abcdef'' ! (n mod 16)"

definition htmlSafe :: "char \<Rightarrow> bool" where
  "htmlSafe c =
     (let n = (of_char c :: nat) in
      32 \<le> n \<and> n < 128 \<and> n \<noteq> 0x22 \<and> n \<noteq> 0x5C \<and> n \<noteq> 0x3C \<and> n \<noteq> 0x3E \<and> n \<noteq> 0x26)"

definition escape_ascii :: "char \<Rightarrow> string" where
  "escape_ascii c =
     (let n = (of_char c :: nat) in
      if htmlSafe c then [c]
      else if n = 0x5C \<or> n = 0x22 then [CHR 0x5C, c]
      else if n = 8 then [CHR 0x5C, CHR ''b'']
      else if n = 12 then [CHR 0x5C, CHR ''f'']
      else if n = 10 then [CHR 0x5C, CHR ''n'']
      else if n = 13 then [CHR 0x5C, CHR ''r'']
      else if n = 9 then [CHR 0x5C, CHR ''t'']
      else [CHR 0x5C, CHR ''u'', CHR ''0'', CHR ''0'', hex (n div 16), hex (n mod 16)])"

definition cont :: "nat \<Rightarrow> bool" where
  "cont b = (0x80 \<le> b \<and> b \<le> 0xBF)"

text \<open>
  The width of the UTF-8 sequence at the head of a byte list, as
  \<open>utf8.DecodeRuneInString\<close> reports it: 1 for a byte that starts no valid sequence
  (the decoder's \<open>(RuneError, 1)\<close>).
\<close>

definition utf8_len :: "nat list \<Rightarrow> nat" where
  "utf8_len bs =
     (case bs of
        b0 # b1 # r1 \<Rightarrow>
          if 0xC2 \<le> b0 \<and> b0 \<le> 0xDF then (if cont b1 then 2 else 1)
          else (case r1 of
             b2 # r2 \<Rightarrow>
               if 0xE0 \<le> b0 \<and> b0 \<le> 0xEF then
                 (if (if b0 = 0xE0 then 0xA0 \<le> b1 \<and> b1 \<le> 0xBF
                      else if b0 = 0xED then 0x80 \<le> b1 \<and> b1 \<le> 0x9F
                      else cont b1) \<and> cont b2 then 3 else 1)
               else (case r2 of
                  b3 # r3 \<Rightarrow>
                    if 0xF0 \<le> b0 \<and> b0 \<le> 0xF4 then
                      (if (if b0 = 0xF0 then 0x90 \<le> b1 \<and> b1 \<le> 0xBF
                           else if b0 = 0xF4 then 0x80 \<le> b1 \<and> b1 \<le> 0x8F
                           else cont b1) \<and> cont b2 \<and> cont b3 then 4 else 1)
                    else 1
                | [] \<Rightarrow> 1)
           | [] \<Rightarrow> 1)
      | _ \<Rightarrow> 1)"

definition escape_rune :: "string \<Rightarrow> string" where
  "escape_rune r =
     (if length r \<le> 1 then [CHR 0x5C, CHR ''u'', CHR ''f'', CHR ''f'', CHR ''f'', CHR ''d'']
      else if r = [CHR 0xE2, CHR 0x80, CHR 0xA8] then [CHR 0x5C, CHR ''u'', CHR ''2'', CHR ''0'', CHR ''2'', CHR ''8'']
      else if r = [CHR 0xE2, CHR 0x80, CHR 0xA9] then [CHR 0x5C, CHR ''u'', CHR ''2'', CHR ''0'', CHR ''2'', CHR ''9'']
      else r)"

fun json_escape :: "string \<Rightarrow> string" where
  "json_escape [] = []"
| "json_escape (c # cs) =
     (if (of_char c :: nat) < 128 then escape_ascii c @ json_escape cs
      else (let n = utf8_len (map of_char (take 4 (c # cs)))
            in escape_rune (take n (c # cs)) @ json_escape (drop (n - 1) cs)))"

definition json_Marshal :: "string \<Rightarrow> string" where
  "json_Marshal v = CHR 0x22 # json_escape v @ [CHR 0x22]"

section \<open>The world the services run in\<close>

text \<open>
  \<open>UUID\<close> is google/uuid's \<open>[16]byte\<close>.  Time is in nanoseconds, as
  \<open>time.Duration\<close> counts it.
\<close>

type_synonym UUID = "8 word list"

text \<open>internal/models/trainer.go, roles.go and gym_owner.go: the columns the OTP paths
  read or write, and the contact columns; the primary key \<open>ID\<close> is the key of the
  table.\<close>

record Trainer =
  trainer_Email :: string
  trainer_Phone :: string
  trainer_IsActive :: bool
  trainer_UpdatedAt :: int
  trainer_DeletedAt :: "int option"

record Customer =
  customer_Email :: string
  customer_Phone :: string
  customer_IsActive :: bool
  customer_UpdatedAt :: int
  customer_DeletedAt :: "int option"

record GymOwner =
  owner_FullName :: string
  owner_Email :: string
  owner_Phone :: string
  owner_Password :: string
  owner_GymName :: string
  owner_GymRegistrationNumber :: string
  owner_IsActive :: bool
  owner_CreatedAt :: int
  owner_UpdatedAt :: int
  owner_DeletedAt :: "int option"

text \<open>internal/models/otp.go, \<open>OTP\<close>: a row of table \<open>otps\<close>.\<close>

record OTP =
  otp_UserID :: UUID
  otp_Type :: string
  otp_Target :: string
  otp_TargetType :: string
  otp_Code :: string
  otp_Used :: bool
  otp_ExpiresAt :: int
  otp_UpdatedAt :: int

text \<open>
  The state outside the process: the clock, the Redis server (each key with its value and
  the instant it expires, if any), the database tables, and the global \<open>math/rand\<close>
  source (\<open>rand_draws\<close> lists the raw values it will yield, \<open>rand_pos\<close> counts the
  draws made).  \<open>redis_faults\<close> and \<open>db_faults\<close> schedule the outcome of the
  coming round trips to Redis and to the database: the head is consumed by the next
  round trip, \<open>True\<close> makes it fail with a connection error, and an empty list
  means no failure.
\<close>

record world =
  now :: int
  redis_data :: "string \<rightharpoonup> string \<times> int option"
  redis_faults :: "bool list"
  db_faults :: "bool list"
  trainers :: "UUID \<rightharpoonup> Trainer"
  customers :: "UUID \<rightharpoonup> Customer"
  gym_owners :: "UUID \<rightharpoonup> GymOwner"
  otps :: "OTP list"
  rand_draws :: "nat \<Rightarrow> nat"
  rand_pos :: nat

section \<open>The Redis server and the go-redis client\<close>

definition redis_roundtrip :: "world \<Rightarrow> bool \<times> world" where
  "redis_roundtrip s =
     (case redis_faults s of
        [] \<Rightarrow> (False, s)
      | f # fs \<Rightarrow> (f, s\<lparr>redis_faults := fs\<rparr>))"

definition db_roundtrip :: "world \<Rightarrow> bool \<times> world" where
  "db_roundtrip s =
     (case db_faults s of
        [] \<Rightarrow> (False, s)
      | f # fs \<Rightarrow> (f, s\<lparr>db_faults := fs\<rparr>))"

text \<open>A key is there until its expiry instant.\<close>

definition redis_live :: "world \<Rightarrow> string \<Rightarrow> string option" where
  "redis_live s k =
     (case redis_data s k of
        None \<Rightarrow> None
      | Some (v, None) \<Rightarrow> Some v
      | Some (v, Some e) \<Rightarrow> if now s < e then Some v else None)"

text \<open>
  go-redis \<open>Set\<close>: a positive expiration is sent as \<open>PX\<close> milliseconds when it
  is below a second or not a whole number of seconds (rounded down, at least 1 ms) and
  as \<open>EX\<close> seconds otherwise; \<open>KeepTTL = -1\<close> keeps the key's expiry; any other
  expiration sets the key without expiry.
\<close>

definition redis_ttl :: "int \<Rightarrow> int" where
  "redis_ttl d =
     (if d < 1000000000 \<or> d mod 1000000000 \<noteq> 0
      then (if d < 1000000 then 1000000 else (d div 1000000) * 1000000)
      else d)"

definition redis_set :: "string \<Rightarrow> string \<Rightarrow> int \<Rightarrow> world \<Rightarrow> world" where
  "redis_set k v d s =
     (let e = (if 0 < d then Some (now s + redis_ttl d)
               else if d = - 1 then
                 (case redis_data s k of
                    Some (_, Some e') \<Rightarrow> if now s < e' then Some e' else None
                  | _ \<Rightarrow> None)
               else None)
      in s\<lparr>redis_data := (redis_data s)(k \<mapsto> (v, e))\<rparr>)"

definition redis_del :: "string \<Rightarrow> world \<Rightarrow> world" where
  "redis_del k s = s\<lparr>redis_data := (redis_data s)(k := None)\<rparr>"

subsection \<open>\<open>redisClient\<close> (package cache, the \<open>RedisClient\<close> interface)\<close>

definition redisClient_Set :: "string \<Rightarrow> string \<Rightarrow> int \<Rightarrow> world \<Rightarrow> error option \<times> world" where
  "redisClient_Set key val expiration s =
     (let data = json_Marshal val;
          (fault, s1) = redis_roundtrip s
      in if fault then (Some ErrRedis, s1) else (None, redis_set key data expiration s1))"

definition redisClient_Get :: "string \<Rightarrow> world \<Rightarrow> (error + string) \<times> world" where
  "redisClient_Get key s =
     (let (fault, s1) = redis_roundtrip s
      in if fault then (Inl ErrRedis, s1)
         else (case redis_live s1 key of
                 None \<Rightarrow> (Inr [], s1)
               | Some data \<Rightarrow> (Inr data, s1)))"

definition redisClient_Delete :: "string \<Rightarrow> world \<Rightarrow> error option \<times> world" where
  "redisClient_Delete key s =
     (let (fault, s1) = redis_roundtrip s
      in if fault then (Some ErrRedis, s1) else (None, redis_del key s1))"

definition redisClient_Exists :: "string \<Rightarrow> world \<Rightarrow> (error + bool) \<times> world" where
  "redisClient_Exists key s =
     (let (fault, s1) = redis_roundtrip s
      in if fault then (Inl ErrRedis, s1)
         else (Inr (redis_live s1 key \<noteq> None), s1))"

subsection \<open>Package-level \<open>cache.Get\<close> and \<open>cache.Delete\<close> (internal/cache/cache.go)\<close>

text \<open>These hand go-redis's result through: an absent key is the error \<open>redis.Nil\<close>.\<close>

datatype cache_error = redis_Nil | cache_ErrRedis

definition cache_Get :: "string \<Rightarrow> world \<Rightarrow> (cache_error + string) \<times> world" where
  "cache_Get key s =
     (let (fault, s1) = redis_roundtrip s
      in if fault then (Inl cache_ErrRedis, s1)
         else (case redis_live s1 key of
                 None \<Rightarrow> (Inl redis_Nil, s1)
               | Some data \<Rightarrow> (Inr data, s1)))"

definition cache_Delete :: "string \<Rightarrow> world \<Rightarrow> cache_error option \<times> world" where
  "cache_Delete key s =
     (let (fault, s1) = redis_roundtrip s
      in if fault then (Some cache_ErrRedis, s1) else (None, redis_del key s1))"

section \<open>Configuration (package config)\<close>

text \<open>
  \<open>strconv.Atoi\<close> on a 64-bit platform: the value and whether the error is nil.  A
  string that is not an optional sign and at least one decimal digit gives 0 and an
  error; a value out of range gives the nearest \<open>int64\<close> and an error.
\<close>

definition is_digit :: "char \<Rightarrow> bool" where
  "is_digit c = (48 \<le> (of_char c :: nat) \<and> (of_char c :: nat) \<le> 57)"

definition digits_val :: "string \<Rightarrow> int" where
  "digits_val ds = foldl (\<lambda>n c. n * 10 + (of_char c - 48)) 0 ds"

definition Atoi :: "string \<Rightarrow> int \<times> bool" where
  "Atoi str =
     (let (neg, ds) =
            (case str of
               [] \<Rightarrow> (False, [])
             | c # r \<Rightarrow>
                 if c = CHR ''-'' then (True, r)
                 else if c = CHR ''+'' then (False, r)
                 else (False, str))
      in if ds \<noteq> [] \<and> list_all is_digit ds then
           (let v = (if neg then - digits_val ds else digits_val ds)
            in if 9223372036854775807 < v then (9223372036854775807, False)
               else if v < - 9223372036854775808 then (- 9223372036854775808, False)
               else (v, True))
         else (0, False))"

text \<open>
  The fields of \<open>Config\<close> that the OTP service and \<open>validate\<close> read.  The process
  environment is a function from the variable's name to its value, empty when unset
  (\<open>os.Getenv\<close>).
\<close>

record Config =
  Environment :: string
  Auth_JWTSecret :: string
  Database_Password :: string
  OTP_Length :: int
  OTP_ExpiryMinutes :: int
  OTP_RateLimit :: int
  OTP_DefaultOTP :: string

definition getEnv :: "(string \<Rightarrow> string) \<Rightarrow> string \<Rightarrow> string \<Rightarrow> string" where
  "getEnv env key defaultValue = (if env key \<noteq> [] then env key else defaultValue)"

definition getEnvOrDefault :: "(string \<Rightarrow> string) \<Rightarrow> string \<Rightarrow> string \<Rightarrow> string" where
  "getEnvOrDefault env key defaultValue = (if env key \<noteq> [] then env key else defaultValue)"

definition getEnvAsIntOrDefault :: "(string \<Rightarrow> string) \<Rightarrow> string \<Rightarrow> int \<Rightarrow> int" where
  "getEnvAsIntOrDefault env key defaultValue =
     (if env key \<noteq> [] then
        (case Atoi (env key) of
           (intValue, True) \<Rightarrow> intValue
         | (_, False) \<Rightarrow> defaultValue)
      else defaultValue)"

datatype config_error = JWT_SECRET_required | DB_PASSWORD_required

definition validate :: "Config \<Rightarrow> config_error option" where
  "validate c =
     (if Auth_JWTSecret c = [] then Some JWT_SECRET_required
      else if Database_Password c = [] then Some DB_PASSWORD_required
      else None)"

definition LoadConfig :: "(string \<Rightarrow> string) \<Rightarrow> config_error + Config" where
  "LoadConfig env =
     (let config = \<lparr>
            Environment = getEnv env ''APP_ENV'' ''development'',
            Auth_JWTSecret = getEnv env ''JWT_SECRET'' ''your-secret-key'',
            Database_Password = getEnv env ''DB_PASSWORD'' ''postgres'',
            OTP_Length = getEnvAsIntOrDefault env ''OTP_LENGTH'' 6,
            OTP_ExpiryMinutes = getEnvAsIntOrDefault env ''OTP_EXPIRY_MINUTES'' 5,
            OTP_RateLimit = getEnvAsIntOrDefault env ''OTP_RATE_LIMIT'' 3,
            OTP_DefaultOTP = getEnvOrDefault env ''OTP_DEFAULT'' ''123456'' \<rparr>
      in case validate config of
           Some err \<Rightarrow> Inl err
         | None \<Rightarrow> Inr config)"

text \<open>\<open>time.Duration(m) * time.Minute\<close>: an \<open>int64\<close> product, which wraps.\<close>

definition minutes :: "int \<Rightarrow> int" where
  "minutes m = signed_take_bit 63 (m * 60000000000)"

section \<open>Repositories (gorm)\<close>

text \<open>
  \<open>First(&row, "id = ?", id)\<close> skips soft-deleted rows; \<open>Save\<close> writes every column of
  the row under its primary key and stamps \<open>UpdatedAt\<close>.
\<close>

definition TrainerRepository_GetByID :: "UUID \<Rightarrow> world \<Rightarrow> (error + Trainer) \<times> world" where
  "TrainerRepository_GetByID uid s =
     (let (fault, s1) = db_roundtrip s
      in if fault then (Inl ErrDB, s1)
         else (case trainers s1 uid of
                 None \<Rightarrow> (Inl repository_ErrTrainerNotFound, s1)
               | Some trainer \<Rightarrow>
                   if trainer_DeletedAt trainer = None then (Inr trainer, s1)
                   else (Inl repository_ErrTrainerNotFound, s1)))"

definition TrainerRepository_Update :: "UUID \<Rightarrow> Trainer \<Rightarrow> world \<Rightarrow> error option \<times> world" where
  "TrainerRepository_Update uid trainer s =
     (let (fault, s1) = db_roundtrip s
      in if fault then (Some ErrDB, s1)
         else (None, s1\<lparr>trainers := (trainers s1)(uid \<mapsto> trainer\<lparr>trainer_UpdatedAt := now s1\<rparr>)\<rparr>))"

definition CustomerRepository_GetByID :: "UUID \<Rightarrow> world \<Rightarrow> (error + Customer) \<times> world" where
  "CustomerRepository_GetByID uid s =
     (let (fault, s1) = db_roundtrip s
      in if fault then (Inl ErrDB, s1)
         else (case customers s1 uid of
                 None \<Rightarrow> (Inl gorm_ErrRecordNotFound, s1)
               | Some customer \<Rightarrow>
                   if customer_DeletedAt customer = None then (Inr customer, s1)
                   else (Inl gorm_ErrRecordNotFound, s1)))"

definition CustomerRepository_Update :: "UUID \<Rightarrow> Customer \<Rightarrow> world \<Rightarrow> error option \<times> world" where
  "CustomerRepository_Update uid customer s =
     (let (fault, s1) = db_roundtrip s
      in if fault then (Some ErrDB, s1)
         else (None, s1\<lparr>customers := (customers s1)(uid \<mapsto> customer\<lparr>customer_UpdatedAt := now s1\<rparr>)\<rparr>))"

section \<open>\<open>OTPService\<close> (internal/service/otp_service.go)\<close>

text \<open>\<open>rand.Intn(n)\<close> for a positive \<open>n\<close>: the next value of the source, below \<open>n\<close>.\<close>

definition rand_Intn :: "nat \<Rightarrow> world \<Rightarrow> nat \<times> world" where
  "rand_Intn n s = (rand_draws s (rand_pos s) mod n, s\<lparr>rand_pos := Suc (rand_pos s)\<rparr>)"

text \<open>The loop of \<open>generateRandomOTP\<close> over the \<open>k\<close> bytes of \<open>digits\<close>.\<close>

fun draw_digits :: "nat \<Rightarrow> world \<Rightarrow> string \<times> world" where
  "draw_digits 0 s = ([], s)"
| "draw_digits (Suc k) s =
     (let (v, s1) = rand_Intn 10 s;
          (ds, s2) = draw_digits k s1
      in (char_of (v + 48) # ds, s2))"

text \<open>\<open>make([]byte, n)\<close> panics on a negative length.\<close>

definition generateRandomOTP :: "Config \<Rightarrow> world \<Rightarrow> (error + string) \<times> world" where
  "generateRandomOTP cfg s =
     (if OTP_DefaultOTP cfg \<noteq> [] then (Inr (OTP_DefaultOTP cfg), s)
      else if OTP_Length cfg < 0 then (Inl Panic, s)
      else (let (digits, s1) = draw_digits (nat (OTP_Length cfg)) s in (Inr digits, s1)))"

definition rateLimitKey :: "string \<Rightarrow> string" where
  "rateLimitKey target = ''otp:ratelimit:'' @ target"

definition otpKey :: "string \<Rightarrow> string \<Rightarrow> string" where
  "otpKey targetType target = ''otp:'' @ targetType @ '':'' @ target"

definition GenerateOTP :: "Config \<Rightarrow> string \<Rightarrow> string \<Rightarrow> world \<Rightarrow> (error + string) \<times> world" where
  "GenerateOTP cfg target targetType s =
     (case redisClient_Exists (rateLimitKey target) s of
        (Inl err, s1) \<Rightarrow> (Inl err, s1)
      | (Inr exists, s1) \<Rightarrow>
          if exists then (Inl models_ErrOTPExpired, s1)
          else (case generateRandomOTP cfg s1 of
             (Inl err, s2) \<Rightarrow> (Inl err, s2)
           | (Inr otp, s2) \<Rightarrow>
               (case redisClient_Set (otpKey targetType target) otp
                       (minutes (OTP_ExpiryMinutes cfg)) s2 of
                  (Some err, s3) \<Rightarrow> (Inl err, s3)
                | (None, s3) \<Rightarrow>
                    (case redisClient_Set (rateLimitKey target) ''1''
                            (minutes (OTP_RateLimit cfg)) s3 of
                       (Some err, s4) \<Rightarrow> (Inl err, s4)
                     | (None, s4) \<Rightarrow> (Inr otp, s4)))))"

definition activateUser :: "UUID \<Rightarrow> string \<Rightarrow> world \<Rightarrow> error option \<times> world" where
  "activateUser userID targetType s =
     (if targetType = ''trainer'' then
        (case TrainerRepository_GetByID userID s of
           (Inl err, s1) \<Rightarrow> (Some err, s1)
         | (Inr trainer, s1) \<Rightarrow>
             TrainerRepository_Update userID (trainer\<lparr>trainer_IsActive := True\<rparr>) s1)
      else
        (case CustomerRepository_GetByID userID s of
           (Inl err, s1) \<Rightarrow> (Some err, s1)
         | (Inr user, s1) \<Rightarrow>
             CustomerRepository_Update userID (user\<lparr>customer_IsActive := True\<rparr>) s1))"

text \<open>
  \<open>VerifyOTP\<close> returns Go's pair \<open>(bool, error)\<close>.  \<open>uuid_Parse\<close> is google/uuid's
  \<open>uuid.Parse\<close>, \<open>None\<close> where it returns an error.
\<close>

definition VerifyOTP ::
  "(string \<Rightarrow> UUID option) \<Rightarrow> string \<Rightarrow> string \<Rightarrow> string \<Rightarrow> world \<Rightarrow> (bool \<times> error option) \<times> world" where
  "VerifyOTP uuid_Parse target targetType otp s =
     (case redisClient_Get (otpKey targetType target) s of
        (Inl err, s1) \<Rightarrow> ((False, Some err), s1)
      | (Inr storedOTP, s1) \<Rightarrow>
          if storedOTP = [] then ((False, Some models_ErrOTPExpired), s1)
          else if storedOTP \<noteq> otp then ((False, Some models_ErrInvalidOTP), s1)
          else (case redisClient_Delete (otpKey targetType target) s1 of
             (Some err, s2) \<Rightarrow> ((False, Some err), s2)
           | (None, s2) \<Rightarrow>
               (case uuid_Parse target of
                  None \<Rightarrow> ((False, Some ErrUUIDParse), s2)
                | Some userID \<Rightarrow>
                    (case activateUser userID targetType s2 of
                       (Some err, s3) \<Rightarrow> ((False, Some err), s3)
                     | (None, s3) \<Rightarrow> ((True, None), s3)))))"

subsection \<open>\<open>redisRateLimiter\<close>\<close>

record redisRateLimiter =
  rl_prefix :: string
  rl_limit :: int
  rl_window :: int

definition IsAllowed :: "redisRateLimiter \<Rightarrow> string \<Rightarrow> world \<Rightarrow> bool \<times> world" where
  "IsAllowed r key s =
     (case redisClient_Get (rl_prefix r @ key) s of
        (Inl err, s1) \<Rightarrow> (True, s1)
      | (Inr count, s1) \<Rightarrow> (fst (Atoi count) < rl_limit r, s1))"

section \<open>\<open>GymOwnerService.VerifyOTP\<close>\<close>

text \<open>\<open>UUID.String\<close>: lower-case hexadecimal in groups of 4, 2, 2, 2 and 6 bytes.\<close>

definition encodeHex :: "8 word list \<Rightarrow> string" where
  "encodeHex bs = concat (map (\<lambda>b. [hex (unat b div 16), hex (unat b mod 16)]) bs)"

definition uuid_String :: "UUID \<Rightarrow> string" where
  "uuid_String u =
     encodeHex (take 4 u) @ ''-'' @ encodeHex (take 2 (drop 4 u)) @ ''-'' @
     encodeHex (take 2 (drop 6 u)) @ ''-'' @ encodeHex (take 2 (drop 8 u)) @ ''-'' @
     encodeHex (take 6 (drop 10 u))"

definition gymOwnerKey :: "UUID \<Rightarrow> string" where
  "gymOwnerKey ownerID = ''otp:gym_owner:'' @ uuid_String ownerID"

definition GymOwnerService_VerifyOTP :: "UUID \<Rightarrow> string \<Rightarrow> world \<Rightarrow> error option \<times> world" where
  "GymOwnerService_VerifyOTP ownerID otp s =
     (case redisClient_Get (gymOwnerKey ownerID) s of
        (Inl err, s1) \<Rightarrow> (Some service_ErrInvalidOTP, s1)
      | (Inr storedOTP, s1) \<Rightarrow>
          if storedOTP \<noteq> otp then (Some service_ErrInvalidOTP, s1)
          else (case redisClient_Delete (gymOwnerKey ownerID) s1 of
                  (_, s2) \<Rightarrow> (None, s2)))"

section \<open>Package auth: \<open>VerifyOTP\<close> and \<open>markOTPAsUsed\<close> (internal/auth)\<close>

definition authKey :: "UUID \<Rightarrow> string \<Rightarrow> string" where
  "authKey userID otpType = ''otp:'' @ uuid_String userID @ '':'' @ otpType"

text \<open>The \<open>Where\<close> clauses of the two queries on table \<open>otps\<close>.\<close>

definition same_otp :: "UUID \<Rightarrow> string \<Rightarrow> string \<Rightarrow> OTP \<Rightarrow> bool" where
  "same_otp userID code otpType r =
     (otp_UserID r = userID \<and> otp_Code r = code \<and> otp_Type r = otpType)"

definition valid_otp :: "UUID \<Rightarrow> string \<Rightarrow> string \<Rightarrow> int \<Rightarrow> OTP \<Rightarrow> bool" where
  "valid_otp userID code otpType t r =
     (otp_UserID r = userID \<and> otp_Code r = code \<and> otp_Type r = otpType \<and>
      otp_Used r = False \<and> t < otp_ExpiresAt r)"

definition markOTPAsUsed :: "UUID \<Rightarrow> string \<Rightarrow> string \<Rightarrow> world \<Rightarrow> error option \<times> world" where
  "markOTPAsUsed userID code otpType s =
     (let (fault, s1) = db_roundtrip s
      in if fault then (Some ErrDB, s1)
         else (let s2 = s1\<lparr>otps :=
                      map (\<lambda>r. if same_otp userID code otpType r
                                then r\<lparr>otp_Used := True, otp_UpdatedAt := now s1\<rparr> else r)
                          (otps s1)\<rparr>;
                   (_, s3) = cache_Delete (authKey userID otpType) s2
               in (None, s3)))"

definition auth_VerifyOTP :: "UUID \<Rightarrow> string \<Rightarrow> string \<Rightarrow> world \<Rightarrow> (bool \<times> error option) \<times> world" where
  "auth_VerifyOTP userID code otpType s =
     (let (cached, s1) = cache_Get (authKey userID otpType) s
      in if cached = Inr code then
           (let (_, s2) = markOTPAsUsed userID code otpType s1 in ((True, None), s2))
         else
           (let (fault, s2) = db_roundtrip s1
            in if fault then ((False, Some ErrInvalidOrExpired), s2)
               else if list_ex (valid_otp userID code otpType (now s2)) (otps s2)
               then (let (_, s3) = markOTPAsUsed userID code otpType s2 in ((True, None), s3))
               else ((False, Some ErrInvalidOrExpired), s2)))"

section \<open>Vocabulary of the statements\<close>

text \<open>\<open>fails_at i fs\<close>: the schedule \<open>fs\<close> makes the \<open>i\<close>-th coming round trip fail.\<close>

definition fails_at :: "nat \<Rightarrow> bool list \<Rightarrow> bool" where
  "fails_at i fs = (i < length fs \<and> fs ! i)"

text \<open>The account that \<open>activateUser\<close> looks up exists: a trainer for target type
  \<open>trainer\<close>, a customer for any other.\<close>

definition account_found :: "string \<Rightarrow> UUID \<Rightarrow> world \<Rightarrow> bool" where
  "account_found targetType uid s =
     (if targetType = ''trainer'' then
        (case trainers s uid of None \<Rightarrow> False | Some t \<Rightarrow> trainer_DeletedAt t = None)
      else
        (case customers s uid of None \<Rightarrow> False | Some c \<Rightarrow> customer_DeletedAt c = None))"

subsection \<open>Concrete inputs\<close>

definition sample_uuid :: UUID where
  "sample_uuid = [0x12, 0x3e, 0x45, 0x67, 0xe8, 0x9b, 0x12, 0xd3,
                  0xa4, 0x56, 0x42, 0x66, 0x14, 0x17, 0x40, 0x00]"

definition sample_target :: string where
  "sample_target = ''123e4567-e89b-12d3-a456-426614174000''"

text \<open>\<open>uuid.Parse\<close> at the one target the examples use; the examples parse no other.\<close>

definition sample_Parse :: "string \<Rightarrow> UUID option" where
  "sample_Parse str = (if str = sample_target then Some sample_uuid else None)"

definition sample_customer :: Customer where
  "sample_customer = \<lparr>customer_Email = ''jane@example.com'', customer_Phone = ''+15551234567'',
     customer_IsActive = False, customer_UpdatedAt = 0, customer_DeletedAt = None\<rparr>"

text \<open>A healthy world at time 0: an empty Redis, one customer, not yet active.\<close>

definition sample_world :: world where
  "sample_world = \<lparr>now = 0, redis_data = Map.empty, redis_faults = [], db_faults = [],
     trainers = Map.empty, customers = [sample_uuid \<mapsto> sample_customer],
     gym_owners = Map.empty, otps = [], rand_draws = (\<lambda>i. 7 * i + 3), rand_pos = 0\<rparr>"

text \<open>What \<open>LoadConfig\<close> yields in an environment that sets no variable.\<close>

definition default_config :: Config where
  "default_config = \<lparr>Environment = ''development'', Auth_JWTSecret = ''your-secret-key'',
     Database_Password = ''postgres'', OTP_Length = 6, OTP_ExpiryMinutes = 5,
     OTP_RateLimit = 3, OTP_DefaultOTP = ''123456''\<rparr>"

definition sample_owner :: GymOwner where
  "sample_owner = \<lparr>owner_FullName = ''John Doe'', owner_Email = ''john.doe@example.com'',
     owner_Phone = ''+1234567890'', owner_Password = ''$2a$10$hash'', owner_GymName = ''Fitness First'',
     owner_GymRegistrationNumber = ''GYM123456'', owner_IsActive = False, owner_CreatedAt = 0,
     owner_UpdatedAt = 0, owner_DeletedAt = None\<rparr>"

text \<open>A gym owner, not yet active, whose OTP \<open>123456\<close> is in the cache beside an
  unrelated key.\<close>

definition owner_world :: world where
  "owner_world = sample_world\<lparr>
     redis_data := [gymOwnerKey sample_uuid \<mapsto> (''123456'', None), ''otp:ratelimit:x'' \<mapsto> (''1'', None)],
     gym_owners := [sample_uuid \<mapsto> sample_owner]\<rparr>"

text \<open>The healthy world with one cache key holding \<open>code\<close>, without expiry.\<close>

definition cached_world :: "string \<Rightarrow> string \<Rightarrow> world" where
  "cached_world key code = sample_world\<lparr>redis_data := [key \<mapsto> (code, None)]\<rparr>"

text \<open>A production environment that sets nothing but \<open>APP_ENV\<close>.\<close>

definition production_env :: "string \<Rightarrow> string" where
  "production_env key = (if key = ''APP_ENV'' then ''production'' else [])"

text \<open>An unused OTP row of the sample customer that expires at minute 5, and the
  healthy world at time \<open>t\<close> whose table \<open>otps\<close> holds just this row.\<close>

definition sample_otp :: OTP where
  "sample_otp = \<lparr>otp_UserID = sample_uuid, otp_Type = ''email'', otp_Target = ''jane@example.com'',
     otp_TargetType = ''customer'', otp_Code = ''123456'', otp_Used = False,
     otp_ExpiresAt = 300000000000, otp_UpdatedAt = 0\<rparr>"

definition otp_world :: "int \<Rightarrow> world" where
  "otp_world t = sample_world\<lparr>now := t, otps := [sample_otp]\<rparr>"

section \<open>Round trips and the Redis client\<close>

lemma fails_at_drop: "fails_at i (drop k fs) = fails_at (k + i) fs"
  by (auto simp: fails_at_def)

lemma fails_at_Nil [simp]: "fails_at i [] = False"
  by (simp add: fails_at_def)

lemma fails_at_Cons_0 [simp]: "fails_at 0 (f # fs) = f"
  by (simp add: fails_at_def)

lemma fails_at_Cons_Suc [simp]: "fails_at (Suc i) (f # fs) = fails_at i fs"
  by (simp add: fails_at_def)

lemma redis_roundtrip_eq:
  "redis_roundtrip s = (fails_at 0 (redis_faults s), s\<lparr>redis_faults := drop 1 (redis_faults s)\<rparr>)"
  by (cases "redis_faults s") (simp_all add: redis_roundtrip_def)

lemma db_roundtrip_eq:
  "db_roundtrip s = (fails_at 0 (db_faults s), s\<lparr>db_faults := drop 1 (db_faults s)\<rparr>)"
  by (cases "db_faults s") (simp_all add: db_roundtrip_def)

lemma redis_live_faults [simp]:
  "redis_live (s\<lparr>redis_faults := fs\<rparr>) k = redis_live s k"
  "redis_live (s\<lparr>db_faults := fs\<rparr>) k = redis_live s k"
  by (simp_all add: redis_live_def split: option.split prod.split)

lemma redisClient_Get_eq:
  "redisClient_Get key s =
     (if fails_at 0 (redis_faults s) then Inl ErrRedis
      else Inr (case redis_live s key of None \<Rightarrow> [] | Some data \<Rightarrow> data),
      s\<lparr>redis_faults := drop 1 (redis_faults s)\<rparr>)"
  by (simp add: redisClient_Get_def redis_roundtrip_eq split: option.split)

lemma redisClient_Delete_eq:
  "redisClient_Delete key s =
     (if fails_at 0 (redis_faults s) then (Some ErrRedis, s\<lparr>redis_faults := drop 1 (redis_faults s)\<rparr>)
      else (None, redis_del key (s\<lparr>redis_faults := drop 1 (redis_faults s)\<rparr>)))"
  by (simp add: redisClient_Delete_def redis_roundtrip_eq)

lemma redisClient_Exists_eq:
  "redisClient_Exists key s =
     (if fails_at 0 (redis_faults s) then Inl ErrRedis else Inr (redis_live s key \<noteq> None),
      s\<lparr>redis_faults := drop 1 (redis_faults s)\<rparr>)"
  by (simp add: redisClient_Exists_def redis_roundtrip_eq)

lemma redisClient_Set_eq:
  "redisClient_Set key v d s =
     (if fails_at 0 (redis_faults s) then (Some ErrRedis, s\<lparr>redis_faults := drop 1 (redis_faults s)\<rparr>)
      else (None, redis_set key (json_Marshal v) d (s\<lparr>redis_faults := drop 1 (redis_faults s)\<rparr>)))"
  by (simp add: redisClient_Set_def redis_roundtrip_eq)

section \<open>\<open>GymOwnerService.VerifyOTP\<close>\<close>

text \<open>
  C8.  For a gym owner with no OTP in the cache, \<open>GymOwnerService.VerifyOTP\<close> with the
  empty string as the submitted code returns nil: when the read reaches Redis, the absent
  key comes back as the empty string without an error, which equals the empty submission.
\<close>

theorem gym_owner_empty_code_accepted:
  assumes "redis_live s (gymOwnerKey ownerID) = None"
      and "\<not> fails_at 0 (redis_faults s)"
  shows "fst (GymOwnerService_VerifyOTP ownerID [] s) = None"
  using assms
  by (simp add: GymOwnerService_VerifyOTP_def redisClient_Get_eq redisClient_Delete_eq
      split: prod.splits)

theorem gym_owner_empty_code_accepted_witness:
  "redis_live sample_world (gymOwnerKey sample_uuid) = None \<and>
   \<not> fails_at 0 (redis_faults sample_world) \<and>
   fst (GymOwnerService_VerifyOTP sample_uuid [] sample_world) = None"
proof -
  have a: "redis_live sample_world (gymOwnerKey sample_uuid) = None"
    by (simp add: redis_live_def sample_world_def)
  have b: "\<not> fails_at 0 (redis_faults sample_world)"
    by (simp add: sample_world_def)
  show ?thesis
    using gym_owner_empty_code_accepted [OF a b] a b by simp
qed

text \<open>
  C10.  \<open>GymOwnerService.VerifyOTP\<close> never modifies the gym-owner record: whatever the
  owner and the submitted code, the tables of gym owners, trainers, customers and OTP
  rows are as before, and so is every cache key but the owner's OTP key; a successful
  verification whose delete reaches Redis removes that key, and a failed one leaves the
  cache as it was.  No activation step is performed.
\<close>

theorem gym_owner_verify_frame:
  assumes "GymOwnerService_VerifyOTP ownerID otp s = (res, s')"
  shows "gym_owners s' = gym_owners s \<and> trainers s' = trainers s \<and> customers s' = customers s \<and>
         otps s' = otps s \<and> now s' = now s \<and>
         (\<forall>k. k \<noteq> gymOwnerKey ownerID \<longrightarrow> redis_data s' k = redis_data s k) \<and>
         (res = None \<and> \<not> fails_at 1 (redis_faults s) \<longrightarrow> redis_data s' (gymOwnerKey ownerID) = None) \<and>
         (res \<noteq> None \<longrightarrow> redis_data s' = redis_data s)"
  using assms
  by (auto simp: GymOwnerService_VerifyOTP_def redisClient_Get_eq redisClient_Delete_eq
      redis_del_def fails_at_drop split: prod.splits if_splits option.splits)

lemma uuid_String_sample: "uuid_String sample_uuid = sample_target"
  by (simp add: uuid_String_def sample_uuid_def sample_target_def encodeHex_def hex_def)

lemma gymOwnerKey_sample:
  "gymOwnerKey sample_uuid = ''otp:gym_owner:123e4567-e89b-12d3-a456-426614174000''"
  by (simp add: gymOwnerKey_def uuid_String_sample sample_target_def)

theorem gym_owner_verify_frame_witness:
  "fst (GymOwnerService_VerifyOTP sample_uuid ''123456'' owner_world) = None \<and>
   gym_owners (snd (GymOwnerService_VerifyOTP sample_uuid ''123456'' owner_world)) sample_uuid
     = Some sample_owner \<and>
   redis_data (snd (GymOwnerService_VerifyOTP sample_uuid ''123456'' owner_world))
     (gymOwnerKey sample_uuid) = None \<and>
   redis_data (snd (GymOwnerService_VerifyOTP sample_uuid ''123456'' owner_world))
     ''otp:ratelimit:x'' = Some (''1'', None) \<and>
   fst (GymOwnerService_VerifyOTP sample_uuid ''000000'' owner_world) = Some service_ErrInvalidOTP \<and>
   redis_data (snd (GymOwnerService_VerifyOTP sample_uuid ''000000'' owner_world))
     = redis_data owner_world"
proof -
  have ok: "fst (GymOwnerService_VerifyOTP sample_uuid ''123456'' owner_world) = None"
    by (simp add: GymOwnerService_VerifyOTP_def redisClient_Get_eq redisClient_Delete_eq
        owner_world_def sample_world_def redis_live_def gymOwnerKey_sample)
  have bad: "fst (GymOwnerService_VerifyOTP sample_uuid ''000000'' owner_world)
               = Some service_ErrInvalidOTP"
    by (simp add: GymOwnerService_VerifyOTP_def redisClient_Get_eq redisClient_Delete_eq
        owner_world_def sample_world_def redis_live_def gymOwnerKey_sample)
  have f: "\<not> fails_at 1 (redis_faults owner_world)"
    by (simp add: owner_world_def sample_world_def)
  have ne: "''otp:ratelimit:x'' \<noteq> gymOwnerKey sample_uuid"
    by (simp add: gymOwnerKey_sample)
  have d: "redis_data owner_world ''otp:ratelimit:x'' = Some (''1'', None)"
      "gym_owners owner_world sample_uuid = Some sample_owner"
    by (simp_all add: owner_world_def gymOwnerKey_sample)
  show ?thesis
    using gym_owner_verify_frame [OF prod.collapse [symmetric], of sample_uuid "''123456''" owner_world]
      gym_owner_verify_frame [OF prod.collapse [symmetric], of sample_uuid "''000000''" owner_world]
      ok bad f ne d
    by (simp add: gymOwnerKey_sample)
qed

section \<open>\<open>OTPService.VerifyOTP\<close>\<close>

lemma redis_live_del [simp]: "redis_live (redis_del k s) k = None"
  by (simp add: redis_live_def redis_del_def)

lemma redis_live_Some_data:
  "redis_live s k = Some v \<Longrightarrow> redis_data s k \<noteq> None"
  by (auto simp: redis_live_def split: option.splits)

lemma redis_live_absent: "redis_data s k = None \<Longrightarrow> redis_live s k = None"
  by (simp add: redis_live_def)

lemma activateUser_frame:
  assumes "activateUser uid targetType s = (r, s')"
  shows "redis_data s' = redis_data s \<and> now s' = now s \<and> redis_faults s' = redis_faults s \<and>
         gym_owners s' = gym_owners s \<and> otps s' = otps s \<and> rand_pos s' = rand_pos s"
  using assms
  by (auto simp: activateUser_def TrainerRepository_GetByID_def TrainerRepository_Update_def
      CustomerRepository_GetByID_def CustomerRepository_Update_def db_roundtrip_eq
      split: option.splits if_splits)

lemma VerifyOTP_absent:
  assumes "redis_live s (otpKey targetType target) = None"
  shows "VerifyOTP P target targetType otp s =
           ((False, Some (if fails_at 0 (redis_faults s) then ErrRedis else models_ErrOTPExpired)),
            s\<lparr>redis_faults := drop 1 (redis_faults s)\<rparr>)"
  using assms by (simp add: VerifyOTP_def redisClient_Get_eq)

lemma VerifyOTP_consumed:
  assumes "VerifyOTP P target targetType otp s = (res, s')"
      and "\<not> fails_at 0 (redis_faults s)" "\<not> fails_at 1 (redis_faults s)"
      and "redis_live s (otpKey targetType target) = Some otp" "otp \<noteq> []"
  shows "redis_data s' (otpKey targetType target) = None"
  using assms
  by (auto simp: VerifyOTP_def redisClient_Get_eq redisClient_Delete_eq fails_at_drop redis_del_def
      split: option.splits prod.splits dest!: activateUser_frame)

lemma VerifyOTP_success:
  assumes "VerifyOTP P target targetType otp s = ((True, None), s')"
  shows "\<not> fails_at 0 (redis_faults s) \<and> \<not> fails_at 1 (redis_faults s) \<and>
         redis_live s (otpKey targetType target) = Some otp \<and> otp \<noteq> []"
  using assms
  by (auto simp: VerifyOTP_def redisClient_Get_eq redisClient_Delete_eq fails_at_drop
      split: option.splits prod.splits if_splits)

lemma activateUser_result:
  "fst (activateUser uid targetType s) =
     (if fails_at 0 (db_faults s) then Some ErrDB
      else if \<not> account_found targetType uid s then
        Some (if targetType = ''trainer'' then repository_ErrTrainerNotFound else gorm_ErrRecordNotFound)
      else if fails_at 1 (db_faults s) then Some ErrDB
      else None)"
  by (auto simp: activateUser_def TrainerRepository_GetByID_def TrainerRepository_Update_def
      CustomerRepository_GetByID_def CustomerRepository_Update_def db_roundtrip_eq account_found_def
      fails_at_drop split: option.splits)

lemma account_found_frame [simp]:
  "account_found targetType uid (redis_del k s) = account_found targetType uid s"
  "account_found targetType uid (s\<lparr>redis_faults := fs\<rparr>) = account_found targetType uid s"
  by (simp_all add: account_found_def redis_del_def)

lemma VerifyOTP_matched:
  assumes "redis_live s (otpKey targetType target) = Some otp" "otp \<noteq> []"
      and "\<not> fails_at 0 (redis_faults s)" "\<not> fails_at 1 (redis_faults s)"
  shows "fst (VerifyOTP P target targetType otp s) =
           (case P target of
              None \<Rightarrow> (False, Some ErrUUIDParse)
            | Some uid \<Rightarrow>
               (if fails_at 0 (db_faults s) then (False, Some ErrDB)
                else if \<not> account_found targetType uid s then
                  (False, Some (if targetType = ''trainer'' then repository_ErrTrainerNotFound
                                else gorm_ErrRecordNotFound))
                else if fails_at 1 (db_faults s) then (False, Some ErrDB)
                else (True, None)))"
proof (cases "P target")
  case None
  with assms show ?thesis
    by (simp add: VerifyOTP_def redisClient_Get_eq redisClient_Delete_eq fails_at_drop)
next
  case (Some uid)
  let ?s2 = "redis_del (otpKey targetType target) (s\<lparr>redis_faults := drop 1 (drop 1 (redis_faults s))\<rparr>)"
  have db: "\<And>k w. db_faults (redis_del k w) = db_faults w" by (simp add: redis_del_def)
  have "fst (VerifyOTP P target targetType otp s) =
          (case fst (activateUser uid targetType ?s2) of
             Some e \<Rightarrow> (False, Some e) | None \<Rightarrow> (True, None))"
    using assms Some
    by (simp add: VerifyOTP_def redisClient_Get_eq redisClient_Delete_eq fails_at_drop
        split: prod.splits option.splits)
  then show ?thesis
    using Some by (simp add: activateUser_result db)
qed

text \<open>
  C9.  \<open>OTPService.VerifyOTP\<close> deletes the cache entry before it parses the target and
  before it activates the account.  So whenever the submitted code matches the cached
  one, the read and the delete reach Redis, and a later step fails (the target does not
  parse, the account is not found, or a database round trip of the activation fails),
  the call returns that step's error, the OTP key is gone from the cache, and no retry
  with the same code succeeds, at whatever time and whatever the round trips do.
\<close>

theorem verify_consumes_before_later_steps:
  assumes "redis_live s (otpKey targetType target) = Some otp" "otp \<noteq> []"
      and "\<not> fails_at 0 (redis_faults s)" "\<not> fails_at 1 (redis_faults s)"
      and "uuid_Parse target = None \<or>
           (\<exists>uid. uuid_Parse target = Some uid \<and>
              (fails_at 0 (db_faults s) \<or> fails_at 1 (db_faults s) \<or> \<not> account_found targetType uid s))"
      and "VerifyOTP uuid_Parse target targetType otp s = (res, s')"
  shows "fst res = False \<and>
         snd res \<in> {Some ErrUUIDParse, Some ErrDB, Some repository_ErrTrainerNotFound, Some gorm_ErrRecordNotFound} \<and>
         redis_data s' (otpKey targetType target) = None \<and>
         (\<forall>t fs gs. fst (fst (VerifyOTP uuid_Parse target targetType otp
                          (s'\<lparr>now := t, redis_faults := fs, db_faults := gs\<rparr>))) = False)"
proof -
  have res: "res = fst (VerifyOTP uuid_Parse target targetType otp s)" using assms(6) by simp
  have c: "redis_data s' (otpKey targetType target) = None"
    using VerifyOTP_consumed[OF assms(6) assms(3) assms(4) assms(1) assms(2)] .
  have l: "\<And>t fs gs. redis_live (s'\<lparr>now := t, redis_faults := fs, db_faults := gs\<rparr>) (otpKey targetType target) = None"
    using c by (simp add: redis_live_def)
  have "fst res = False \<and>
         snd res \<in> {Some ErrUUIDParse, Some ErrDB, Some repository_ErrTrainerNotFound, Some gorm_ErrRecordNotFound}"
    unfolding res VerifyOTP_matched[OF assms(1-4)] using assms(5) by (auto split: option.splits)
  then show ?thesis using c by (simp add: VerifyOTP_absent[OF l])
qed

text \<open>
  C2 (as amended).  After a successful \<open>VerifyOTP\<close> of a (target, targetType, code)
  triple, a second call with the same triple fails, at whatever time and whatever the
  round trips do: with \<open>models.ErrOTPExpired\<close> when the cache read reaches Redis, and
  with the read's error when it does not.  It never fails with \<open>ErrInvalidOTP\<close>.
\<close>

theorem second_verify_fails:
  assumes "VerifyOTP uuid_Parse target targetType otp s = ((True, None), s')"
  shows "fst (VerifyOTP uuid_Parse target targetType otp (s'\<lparr>now := t, redis_faults := fs, db_faults := gs\<rparr>)) =
           (False, Some (if fails_at 0 fs then ErrRedis else models_ErrOTPExpired))"
proof -
  note h = VerifyOTP_success[OF assms]
  have c: "redis_data s' (otpKey targetType target) = None"
    using VerifyOTP_consumed[OF assms] h by simp
  have l: "redis_live (s'\<lparr>now := t, redis_faults := fs, db_faults := gs\<rparr>) (otpKey targetType target) = None"
    using c by (simp add: redis_live_def)
  show ?thesis by (simp add: VerifyOTP_absent[OF l])
qed


lemma cached_world_simps [simp]:
  "redis_live (cached_world key code) key = Some code"
  "redis_faults (cached_world key code) = []"
  "db_faults (cached_world key code) = []"
  "customers (cached_world key code) = [sample_uuid \<mapsto> sample_customer]"
  "trainers (cached_world key code) = Map.empty"
  by (simp_all add: cached_world_def sample_world_def redis_live_def)

theorem verify_consumes_before_later_steps_witness:
  "fst (VerifyOTP sample_Parse ''not-a-uuid'' ''customer'' ''123456''
          (cached_world (otpKey ''customer'' ''not-a-uuid'') ''123456'')) = (False, Some ErrUUIDParse) \<and>
   redis_data (snd (VerifyOTP sample_Parse ''not-a-uuid'' ''customer'' ''123456''
          (cached_world (otpKey ''customer'' ''not-a-uuid'') ''123456'')))
      (otpKey ''customer'' ''not-a-uuid'') = None \<and>
   fst (fst (VerifyOTP sample_Parse ''not-a-uuid'' ''customer'' ''123456''
          ((snd (VerifyOTP sample_Parse ''not-a-uuid'' ''customer'' ''123456''
             (cached_world (otpKey ''customer'' ''not-a-uuid'') ''123456'')))
           \<lparr>now := 1, redis_faults := [], db_faults := []\<rparr>))) = False \<and>
   fst (VerifyOTP sample_Parse sample_target ''trainer'' ''123456''
          (cached_world (otpKey ''trainer'' sample_target) ''123456''))
      = (False, Some repository_ErrTrainerNotFound) \<and>
   redis_data (snd (VerifyOTP sample_Parse sample_target ''trainer'' ''123456''
          (cached_world (otpKey ''trainer'' sample_target) ''123456'')))
      (otpKey ''trainer'' sample_target) = None"
proof -
  let ?k1 = "otpKey ''customer'' ''not-a-uuid''"
  let ?w1 = "cached_world ?k1 ''123456''"
  let ?k2 = "otpKey ''trainer'' sample_target"
  let ?w2 = "cached_world ?k2 ''123456''"
  have p1: "sample_Parse ''not-a-uuid'' = None \<or>
           (\<exists>uid. sample_Parse ''not-a-uuid'' = Some uid \<and>
              (fails_at 0 (db_faults ?w1) \<or> fails_at 1 (db_faults ?w1) \<or> \<not> account_found ''customer'' uid ?w1))"
    by (simp add: sample_Parse_def sample_target_def)
  have p2: "sample_Parse sample_target = None \<or>
           (\<exists>uid. sample_Parse sample_target = Some uid \<and>
              (fails_at 0 (db_faults ?w2) \<or> fails_at 1 (db_faults ?w2) \<or> \<not> account_found ''trainer'' uid ?w2))"
    by (simp add: sample_Parse_def account_found_def)
  have e1: "fst (VerifyOTP sample_Parse ''not-a-uuid'' ''customer'' ''123456'' ?w1) = (False, Some ErrUUIDParse)"
    by (simp add: VerifyOTP_matched sample_Parse_def sample_target_def)
  have e2: "fst (VerifyOTP sample_Parse sample_target ''trainer'' ''123456'' ?w2) = (False, Some repository_ErrTrainerNotFound)"
    by (simp add: VerifyOTP_matched sample_Parse_def account_found_def)
  have l1: "redis_live ?w1 ?k1 = Some ''123456''" and l2: "redis_live ?w2 ?k2 = Some ''123456''"
    by simp_all
  have n: "''123456'' \<noteq> []" by simp
  have f1: "\<not> fails_at 0 (redis_faults ?w1)" "\<not> fails_at 1 (redis_faults ?w1)"
    and f2: "\<not> fails_at 0 (redis_faults ?w2)" "\<not> fails_at 1 (redis_faults ?w2)"
    by simp_all
  show ?thesis
    using verify_consumes_before_later_steps
        [where uuid_Parse = sample_Parse and target = "''not-a-uuid''" and targetType = "''customer''"
           and s = "?w1", OF l1 n f1 p1 prod.collapse [symmetric]]
      verify_consumes_before_later_steps
        [where uuid_Parse = sample_Parse and target = sample_target and targetType = "''trainer''"
           and s = "?w2", OF l2 n f2 p2 prod.collapse [symmetric]]
      e1 e2
    by simp
qed

text \<open>
  The claim as stated fails: verifying the cached code \<open>123456\<close> of the sample
  customer succeeds, and the second call returns \<open>models.ErrOTPExpired\<close>, not
  \<open>ErrInvalidOTP\<close>.
\<close>

theorem second_verify_counterexample:
  "fst (VerifyOTP sample_Parse sample_target ''customer'' ''123456''
          (cached_world (otpKey ''customer'' sample_target) ''123456'')) = (True, None) \<and>
   fst (VerifyOTP sample_Parse sample_target ''customer'' ''123456''
          (snd (VerifyOTP sample_Parse sample_target ''customer'' ''123456''
             (cached_world (otpKey ''customer'' sample_target) ''123456''))))
     = (False, Some models_ErrOTPExpired)"
proof -
  let ?k = "otpKey ''customer'' sample_target"
  let ?w = "cached_world ?k ''123456''"
  let ?r = "VerifyOTP sample_Parse sample_target ''customer'' ''123456'' ?w"
  have a: "fst ?r = (True, None)"
    by (simp add: VerifyOTP_matched sample_Parse_def account_found_def sample_customer_def)
  have c: "redis_data (snd ?r) ?k = None"
    by (rule VerifyOTP_consumed [OF prod.collapse [symmetric]]) simp_all
  have f: "redis_faults (snd ?r) = []"
    by (simp add: VerifyOTP_def redisClient_Get_eq redisClient_Delete_eq sample_Parse_def
         activateUser_def CustomerRepository_GetByID_def CustomerRepository_Update_def db_roundtrip_eq
         redis_del_def sample_customer_def split: prod.splits)
  have l: "redis_live (snd ?r) ?k = None" using c by (simp add: redis_live_def)
  show ?thesis using a f by (simp add: VerifyOTP_absent [OF l])
qed

theorem second_verify_fails_witness:
  "fst (VerifyOTP sample_Parse sample_target ''customer'' ''123456''
          (cached_world (otpKey ''customer'' sample_target) ''123456'')) = (True, None) \<and>
   fst (VerifyOTP sample_Parse sample_target ''customer'' ''123456''
          ((snd (VerifyOTP sample_Parse sample_target ''customer'' ''123456''
             (cached_world (otpKey ''customer'' sample_target) ''123456'')))
           \<lparr>now := 5, redis_faults := [True], db_faults := []\<rparr>))
     = (False, Some ErrRedis)"
proof -
  let ?k = "otpKey ''customer'' sample_target"
  let ?w = "cached_world ?k ''123456''"
  let ?r = "VerifyOTP sample_Parse sample_target ''customer'' ''123456'' ?w"
  have a: "fst ?r = (True, None)"
    by (simp add: VerifyOTP_matched sample_Parse_def account_found_def sample_customer_def)
  have b: "?r = ((True, None), snd ?r)"
    using a by (metis prod.collapse)
  show ?thesis
    using second_verify_fails [OF b, where t = 5 and fs = "[True]" and gs = "[]"] a by simp
qed

section \<open>\<open>OTPService.GenerateOTP\<close>\<close>

lemma redis_set_frame [simp]:
  "redis_faults (redis_set k v d s) = redis_faults s"
  "db_faults (redis_set k v d s) = db_faults s"
  "now (redis_set k v d s) = now s"
  "customers (redis_set k v d s) = customers s"
  "trainers (redis_set k v d s) = trainers s"
  "rand_pos (redis_set k v d s) = rand_pos s"
  by (simp_all add: redis_set_def Let_def)

lemma redis_set_faults_commute:
  "redis_set k v d (s\<lparr>redis_faults := fs\<rparr>) = (redis_set k v d s)\<lparr>redis_faults := fs\<rparr>"
  by (simp add: redis_set_def Let_def split: option.split prod.split)

lemma draw_digits_length: "length (fst (draw_digits k s)) = k"
  by (induction k arbitrary: s) (simp_all add: rand_Intn_def case_prod_beta)

lemma is_digit_drawn: "is_digit (char_of (v mod 10 + 48 :: nat))"
proof -
  have "v mod 10 < 10" by simp
  then have "v mod 10 + 48 < 256" "48 \<le> v mod 10 + 48" "v mod 10 + 48 \<le> 57" by simp_all
  then show ?thesis by (simp add: is_digit_def)
qed

lemma draw_digits_digits: "list_all is_digit (fst (draw_digits k s))"
  by (induction k arbitrary: s) (simp_all add: rand_Intn_def is_digit_drawn case_prod_beta)

lemma draw_digits_state: "snd (draw_digits k s) = s\<lparr>rand_pos := rand_pos s + k\<rparr>"
  by (induction k arbitrary: s) (simp_all add: rand_Intn_def case_prod_beta)

lemma generateRandomOTP_eq:
  "generateRandomOTP cfg s =
     (if OTP_DefaultOTP cfg \<noteq> [] then (Inr (OTP_DefaultOTP cfg), s)
      else if OTP_Length cfg < 0 then (Inl Panic, s)
      else (Inr (fst (draw_digits (nat (OTP_Length cfg)) s)),
            s\<lparr>rand_pos := rand_pos s + nat (OTP_Length cfg)\<rparr>))"
  by (simp add: generateRandomOTP_def draw_digits_state case_prod_beta)

lemma generateRandomOTP_code:
  assumes "fst (generateRandomOTP cfg s) = Inr code"
  shows "if OTP_DefaultOTP cfg \<noteq> [] then code = OTP_DefaultOTP cfg
         else int (length code) = OTP_Length cfg \<and> list_all is_digit code"
  using assms
  by (auto simp: generateRandomOTP_eq draw_digits_length draw_digits_digits split: if_splits)

lemma generateRandomOTP_frame:
  "redis_faults (snd (generateRandomOTP cfg s)) = redis_faults s"
  "redis_data (snd (generateRandomOTP cfg s)) = redis_data s"
  "now (snd (generateRandomOTP cfg s)) = now s"
  by (simp_all add: generateRandomOTP_eq)

lemma GenerateOTP_fault:
  assumes "fails_at 0 (redis_faults s)"
  shows "GenerateOTP cfg target targetType s = (Inl ErrRedis, s\<lparr>redis_faults := drop 1 (redis_faults s)\<rparr>)"
  using assms by (simp add: GenerateOTP_def redisClient_Exists_eq)

lemma GenerateOTP_limited:
  assumes "\<not> fails_at 0 (redis_faults s)" "redis_live s (rateLimitKey target) \<noteq> None"
  shows "GenerateOTP cfg target targetType s =
           (Inl models_ErrOTPExpired, s\<lparr>redis_faults := drop 1 (redis_faults s)\<rparr>)"
  using assms by (simp add: GenerateOTP_def redisClient_Exists_eq)

lemma GenerateOTP_Inr:
  assumes "fst (GenerateOTP cfg target targetType s) = Inr code"
  shows "fst (generateRandomOTP cfg (s\<lparr>redis_faults := drop 1 (redis_faults s)\<rparr>)) = Inr code \<and>
         \<not> fails_at 0 (redis_faults s) \<and> \<not> fails_at 1 (redis_faults s) \<and> \<not> fails_at 2 (redis_faults s) \<and>
         redis_live s (rateLimitKey target) = None"
  using assms
  apply (simp add: GenerateOTP_def redisClient_Exists_eq redisClient_Set_eq
      split: if_splits prod.splits sum.splits)
  apply (auto simp: generateRandomOTP_eq fails_at_drop eval_nat_numeral split: if_splits)
  done

lemma GenerateOTP_ok:
  assumes "\<not> fails_at 0 (redis_faults s)" "\<not> fails_at 1 (redis_faults s)" "\<not> fails_at 2 (redis_faults s)"
      and "redis_live s (rateLimitKey target) = None"
      and "generateRandomOTP cfg (s\<lparr>redis_faults := drop 1 (redis_faults s)\<rparr>) = (Inr code, s2)"
  shows "GenerateOTP cfg target targetType s =
           (Inr code,
            redis_set (rateLimitKey target) (json_Marshal ''1'') (minutes (OTP_RateLimit cfg))
              (redis_set (otpKey targetType target) (json_Marshal code) (minutes (OTP_ExpiryMinutes cfg))
                 (s2\<lparr>redis_faults := drop 3 (redis_faults s)\<rparr>)))"
proof -
  have f: "redis_faults s2 = drop 1 (redis_faults s)"
    using generateRandomOTP_frame(1) [of cfg "s\<lparr>redis_faults := drop 1 (redis_faults s)\<rparr>"] assms(5)
    by simp
  show ?thesis
    using assms
    by (simp add: GenerateOTP_def redisClient_Exists_eq redisClient_Set_eq f fails_at_drop
        redis_set_faults_commute eval_nat_numeral)
qed

section \<open>Configuration and the generated code\<close>

lemma LoadConfig_eq:
  "LoadConfig env = Inr \<lparr>
      Environment = getEnv env ''APP_ENV'' ''development'',
      Auth_JWTSecret = getEnv env ''JWT_SECRET'' ''your-secret-key'',
      Database_Password = getEnv env ''DB_PASSWORD'' ''postgres'',
      OTP_Length = getEnvAsIntOrDefault env ''OTP_LENGTH'' 6,
      OTP_ExpiryMinutes = getEnvAsIntOrDefault env ''OTP_EXPIRY_MINUTES'' 5,
      OTP_RateLimit = getEnvAsIntOrDefault env ''OTP_RATE_LIMIT'' 3,
      OTP_DefaultOTP = getEnvOrDefault env ''OTP_DEFAULT'' ''123456'' \<rparr>"
  by (simp add: LoadConfig_def validate_def getEnv_def)

lemma LoadConfig_unset: "LoadConfig (\<lambda>_. []) = Inr default_config"
  by (simp add: LoadConfig_eq default_config_def getEnv_def getEnvOrDefault_def getEnvAsIntOrDefault_def)

text \<open>
  C7.  With no default-code override configured (\<open>OTP.DefaultOTP\<close> empty), the code
  of every successful \<open>GenerateOTP\<close> call consists of decimal digits only and its
  length is the configured \<open>OTP.Length\<close>; \<open>LoadConfig\<close> sets that length to 6 when
  \<open>OTP_LENGTH\<close> is not set.
\<close>

theorem generated_code_is_digits:
  assumes "OTP_DefaultOTP cfg = []"
      and "fst (GenerateOTP cfg target targetType s) = Inr code"
  shows "int (length code) = OTP_Length cfg \<and> list_all is_digit code \<and>
         (env ''OTP_LENGTH'' = [] \<longrightarrow> map_sum id OTP_Length (LoadConfig env) = Inr 6)"
  using GenerateOTP_Inr [OF assms(2)] assms(1)
    generateRandomOTP_code [of cfg "s\<lparr>redis_faults := drop 1 (redis_faults s)\<rparr>" code]
  by (simp add: LoadConfig_eq getEnvAsIntOrDefault_def)

lemma draw6:
  "fst (draw_digits 6 (sample_world\<lparr>redis_faults := []\<rparr>)) = ''307418''"
proof -
  have six: "(6::nat) = Suc (Suc (Suc (Suc (Suc (Suc 0)))))" by simp
  show ?thesis
    unfolding six by (simp add: rand_Intn_def sample_world_def case_prod_beta char_of_def bit_0)
qed

lemma sample_digits:
  "fst (GenerateOTP (default_config\<lparr>OTP_DefaultOTP := []\<rparr>) sample_target ''customer'' sample_world)
     = Inr ''307418''"
proof -
  have f: "redis_faults sample_world = []" by (simp add: sample_world_def)
  have l: "redis_live sample_world (rateLimitKey sample_target) = None"
    by (simp add: redis_live_def sample_world_def)
  have g: "generateRandomOTP (default_config\<lparr>OTP_DefaultOTP := []\<rparr>)
             (sample_world\<lparr>redis_faults := drop 1 (redis_faults sample_world)\<rparr>)
           = (Inr ''307418'', snd (generateRandomOTP (default_config\<lparr>OTP_DefaultOTP := []\<rparr>)
             (sample_world\<lparr>redis_faults := drop 1 (redis_faults sample_world)\<rparr>)))"
    by (simp add: generateRandomOTP_eq default_config_def f draw6)
  show ?thesis
    using GenerateOTP_ok [OF _ _ _ l g] f by simp
qed

theorem generated_code_is_digits_witness:
  "OTP_DefaultOTP (default_config\<lparr>OTP_DefaultOTP := []\<rparr>) = [] \<and>
   fst (GenerateOTP (default_config\<lparr>OTP_DefaultOTP := []\<rparr>) sample_target ''customer'' sample_world)
     = Inr ''307418'' \<and>
   int (length ''307418'') = OTP_Length (default_config\<lparr>OTP_DefaultOTP := []\<rparr>) \<and>
   list_all is_digit ''307418'' \<and>
   map_sum id OTP_Length (LoadConfig (\<lambda>_. [])) = Inr 6"
proof -
  have a: "OTP_DefaultOTP (default_config\<lparr>OTP_DefaultOTP := []\<rparr>) = []" by simp
  have e: "(\<lambda>_. []) ''OTP_LENGTH'' = ([] :: string)" by simp
  show ?thesis
    using generated_code_is_digits [OF a sample_digits, of "\<lambda>_. []"] a sample_digits
    by simp
qed

text \<open>
  C6 (as amended).  When a fixed override code is configured (\<open>OTP.DefaultOTP\<close> not
  empty), every successful \<open>GenerateOTP\<close> call returns exactly that value, in any
  state and so regardless of the call count.  \<open>LoadConfig\<close> takes the override from
  \<open>OTP_DEFAULT\<close> and falls back to \<open>123456\<close> when the variable is unset or empty:
  in every loaded configuration the override is on.
\<close>

theorem default_otp_override:
  "(OTP_DefaultOTP cfg \<noteq> [] \<and> fst (GenerateOTP cfg target targetType s) = Inr code
      \<longrightarrow> code = OTP_DefaultOTP cfg) \<and>
   map_sum id OTP_DefaultOTP (LoadConfig env) =
     Inr (if env ''OTP_DEFAULT'' \<noteq> [] then env ''OTP_DEFAULT'' else ''123456'') \<and>
   map_sum id OTP_DefaultOTP (LoadConfig env) \<noteq> Inr []"
proof -
  have "code = OTP_DefaultOTP cfg"
    if "OTP_DefaultOTP cfg \<noteq> []" "fst (GenerateOTP cfg target targetType s) = Inr code"
    using GenerateOTP_Inr [OF that(2)] that(1)
      generateRandomOTP_code [of cfg "s\<lparr>redis_faults := drop 1 (redis_faults s)\<rparr>" code]
    by simp
  then show ?thesis
    by (auto simp: LoadConfig_eq getEnvOrDefault_def)
qed

lemma minutes_small: "0 \<le> m \<Longrightarrow> m < 153722867 \<Longrightarrow> minutes m = m * 60000000000"
  unfolding minutes_def by (rule signed_take_bit_int_eq_self) simp_all

lemma redis_ttl_minutes: "0 < m \<Longrightarrow> redis_ttl (m * 60000000000) = m * 60000000000"
  by (simp add: redis_ttl_def)

lemma sample_generate:
  "GenerateOTP default_config sample_target ''customer'' sample_world =
     (Inr ''123456'',
      redis_set (rateLimitKey sample_target) (json_Marshal ''1'') (minutes 3)
        (redis_set (otpKey ''customer'' sample_target) (json_Marshal ''123456'') (minutes 5)
           sample_world))"
proof -
  have f: "redis_faults sample_world = []" by (simp add: sample_world_def)
  have w: "sample_world\<lparr>redis_faults := []\<rparr> = sample_world" by (simp add: sample_world_def)
  have l: "redis_live sample_world (rateLimitKey sample_target) = None"
    by (simp add: redis_live_def sample_world_def)
  have g: "generateRandomOTP default_config (sample_world\<lparr>redis_faults := drop 1 (redis_faults sample_world)\<rparr>)
           = (Inr ''123456'', sample_world)"
    by (simp add: generateRandomOTP_eq default_config_def f w)
  show ?thesis
    using GenerateOTP_ok [OF _ _ _ l g, of "''customer''"] f w by (simp add: default_config_def)
qed

text \<open>
  The claim as stated fails: a production environment that does not mention the override
  loads a configuration whose override is \<open>123456\<close>, and \<open>GenerateOTP\<close> returns it.
\<close>

theorem default_otp_override_counterexample:
  "LoadConfig production_env = Inr (default_config\<lparr>Environment := ''production''\<rparr>) \<and>
   OTP_DefaultOTP (default_config\<lparr>Environment := ''production''\<rparr>) = ''123456'' \<and>
   fst (GenerateOTP (default_config\<lparr>Environment := ''production''\<rparr>) sample_target ''customer''
          sample_world) = Inr ''123456''"
proof -
  have f: "redis_faults sample_world = []" by (simp add: sample_world_def)
  have l: "redis_live sample_world (rateLimitKey sample_target) = None"
    by (simp add: redis_live_def sample_world_def)
  have g: "generateRandomOTP (default_config\<lparr>Environment := ''production''\<rparr>)
             (sample_world\<lparr>redis_faults := drop 1 (redis_faults sample_world)\<rparr>)
           = (Inr ''123456'', sample_world\<lparr>redis_faults := drop 1 (redis_faults sample_world)\<rparr>)"
    by (simp add: generateRandomOTP_eq default_config_def)
  have "LoadConfig production_env = Inr (default_config\<lparr>Environment := ''production''\<rparr>)"
    by (simp add: LoadConfig_eq default_config_def production_env_def getEnv_def getEnvOrDefault_def
        getEnvAsIntOrDefault_def)
  then show ?thesis
    using GenerateOTP_ok [OF _ _ _ l g, of "''customer''"] f by (simp add: default_config_def)
qed

theorem default_otp_override_witness:
  "OTP_DefaultOTP default_config \<noteq> [] \<and>
   fst (GenerateOTP default_config sample_target ''customer'' sample_world) = Inr ''123456'' \<and>
   ''123456'' = OTP_DefaultOTP default_config \<and>
   map_sum id OTP_DefaultOTP (LoadConfig production_env) = Inr ''123456''"
proof -
  have a: "OTP_DefaultOTP default_config \<noteq> []" by (simp add: default_config_def)
  have b: "fst (GenerateOTP default_config sample_target ''customer'' sample_world) = Inr ''123456''"
    by (simp add: sample_generate)
  have e: "production_env ''OTP_DEFAULT'' = []" by (simp add: production_env_def)
  show ?thesis
    using default_otp_override [of default_config sample_target "''customer''" sample_world "''123456''"
        production_env] a b e
    by simp
qed

section \<open>Rate limiting\<close>

text \<open>
  C4 (as amended).  When the rate-limit read returns an error, \<open>IsAllowed\<close> returns
  true: the rate limiter fails open.  \<open>GenerateOTP\<close> does not consult the rate limiter;
  it checks the rate-limit key itself, and when that check returns an error it fails
  with the error: no code is generated and nothing is written.
\<close>

theorem rate_limit_check_error:
  assumes "fails_at 0 (redis_faults s)"
  shows "fst (IsAllowed r key s) = True \<and>
         GenerateOTP cfg target targetType s =
           (Inl ErrRedis, s\<lparr>redis_faults := drop 1 (redis_faults s)\<rparr>)"
  using assms by (simp add: IsAllowed_def redisClient_Get_eq GenerateOTP_fault)

text \<open>
  The claim as stated fails: with a Redis whose next round trip (the rate-limit check)
  fails and every later one would succeed, \<open>GenerateOTP\<close> returns the error.
\<close>

theorem rate_limit_check_error_counterexample:
  "fst (GenerateOTP default_config sample_target ''customer'' (sample_world\<lparr>redis_faults := [True]\<rparr>))
     = Inl ErrRedis"
  by (simp add: GenerateOTP_fault)

theorem rate_limit_check_error_witness:
  "fails_at 0 (redis_faults (sample_world\<lparr>redis_faults := [True]\<rparr>)) \<and>
   fst (IsAllowed \<lparr>rl_prefix = ''ratelimit:'', rl_limit = 3, rl_window = 60000000000\<rparr> sample_target
          (sample_world\<lparr>redis_faults := [True]\<rparr>)) = True \<and>
   fst (GenerateOTP default_config sample_target ''customer'' (sample_world\<lparr>redis_faults := [True]\<rparr>))
     = Inl ErrRedis \<and>
   redis_data (snd (GenerateOTP default_config sample_target ''customer''
                      (sample_world\<lparr>redis_faults := [True]\<rparr>))) = redis_data sample_world"
proof -
  have a: "fails_at 0 (redis_faults (sample_world\<lparr>redis_faults := [True]\<rparr>))" by simp
  show ?thesis
    using rate_limit_check_error [OF a, of "\<lparr>rl_prefix = ''ratelimit:'', rl_limit = 3, rl_window = 60000000000\<rparr>"
        sample_target default_config sample_target "''customer''"] a
    by simp
qed

lemma redis_ttl_pos: "0 < d \<Longrightarrow> 0 < redis_ttl d"
  by (auto simp: redis_ttl_def)

lemma redis_data_set:
  "redis_data (redis_set k v d s) k' =
     (if k' = k then
        Some (v, if 0 < d then Some (now s + redis_ttl d)
                 else if d = - 1 then
                   (case redis_data s k of
                      Some (_, Some e') \<Rightarrow> if now s < e' then Some e' else None
                    | _ \<Rightarrow> None)
                 else None)
      else redis_data s k')"
  by (simp add: redis_set_def Let_def)

lemma redis_live_set_later:
  assumes "0 < d"
  shows "redis_live ((redis_set k v d s)\<lparr>now := t\<rparr>) k =
           (if t < now s + redis_ttl d then Some v else None)"
  using assms by (simp add: redis_live_def redis_data_set)

lemma GenerateOTP_success_state:
  assumes "fst (GenerateOTP cfg target targetType s) = Inr code"
  shows "snd (GenerateOTP cfg target targetType s) =
           redis_set (rateLimitKey target) (json_Marshal ''1'') (minutes (OTP_RateLimit cfg))
             (redis_set (otpKey targetType target) (json_Marshal code) (minutes (OTP_ExpiryMinutes cfg))
                ((snd (generateRandomOTP cfg (s\<lparr>redis_faults := drop 1 (redis_faults s)\<rparr>)))
                   \<lparr>redis_faults := drop 3 (redis_faults s)\<rparr>))"
proof -
  note h = GenerateOTP_Inr [OF assms]
  have g: "generateRandomOTP cfg (s\<lparr>redis_faults := drop 1 (redis_faults s)\<rparr>) =
             (Inr code, snd (generateRandomOTP cfg (s\<lparr>redis_faults := drop 1 (redis_faults s)\<rparr>)))"
    using h by (metis prod.collapse)
  show ?thesis
    using GenerateOTP_ok [OF _ _ _ _ g, of target targetType] h by simp
qed

text \<open>
  What holds of the cooldown: after a successful \<open>GenerateOTP\<close> with a rate limit of
  \<open>m\<close> minutes (positive, and small enough for the \<open>int64\<close> product), a further
  call for the same target before \<open>m\<close> minutes have passed fails and writes nothing,
  and a call from then on succeeds when its round trips do.  The error of the failing
  call is \<open>models.ErrOTPExpired\<close>.
\<close>

lemma generate_within_cooldown:
  assumes "fst (GenerateOTP cfg target targetType s) = Inr code"
      and "0 < OTP_RateLimit cfg" "OTP_RateLimit cfg < 153722867"
      and "t < now s + OTP_RateLimit cfg * 60000000000"
      and "\<not> fails_at 0 fs"
  shows "GenerateOTP cfg' target targetType'
           ((snd (GenerateOTP cfg target targetType s))\<lparr>now := t, redis_faults := fs\<rparr>) =
         (Inl models_ErrOTPExpired,
          (snd (GenerateOTP cfg target targetType s))\<lparr>now := t, redis_faults := drop 1 fs\<rparr>)"
proof -
  let ?s' = "(snd (GenerateOTP cfg target targetType s))\<lparr>now := t, redis_faults := fs\<rparr>"
  have m: "minutes (OTP_RateLimit cfg) = OTP_RateLimit cfg * 60000000000"
    using assms(2,3) by (simp add: minutes_small)
  have "redis_live ?s' (rateLimitKey target) \<noteq> None"
    using assms(2,4)
    by (simp add: GenerateOTP_success_state [OF assms(1)] m redis_live_set_later
        redis_ttl_minutes generateRandomOTP_frame)
  moreover have "\<not> fails_at 0 (redis_faults ?s')" using assms(5) by simp
  ultimately show ?thesis
    using GenerateOTP_limited [of ?s' target cfg' targetType'] by simp
qed

lemma generateRandomOTP_total:
  assumes "OTP_DefaultOTP cfg \<noteq> [] \<or> 0 \<le> OTP_Length cfg"
  shows "\<exists>code. fst (generateRandomOTP cfg s) = Inr code"
proof (cases "OTP_DefaultOTP cfg = []")
  case True
  with assms show ?thesis by (simp add: generateRandomOTP_eq)
next
  case False
  then show ?thesis by (simp add: generateRandomOTP_eq)
qed

lemma generate_after_cooldown:
  assumes "fst (GenerateOTP cfg target targetType s) = Inr code"
      and "0 < OTP_RateLimit cfg" "OTP_RateLimit cfg < 153722867"
      and "now s + OTP_RateLimit cfg * 60000000000 \<le> t"
      and "\<not> fails_at 0 fs" "\<not> fails_at 1 fs" "\<not> fails_at 2 fs"
  shows "\<exists>code'. fst (GenerateOTP cfg target targetType'
           ((snd (GenerateOTP cfg target targetType s))\<lparr>now := t, redis_faults := fs\<rparr>)) = Inr code'"
proof -
  let ?s' = "(snd (GenerateOTP cfg target targetType s))\<lparr>now := t, redis_faults := fs\<rparr>"
  have m: "minutes (OTP_RateLimit cfg) = OTP_RateLimit cfg * 60000000000"
    using assms(2,3) by (simp add: minutes_small)
  have l: "redis_live ?s' (rateLimitKey target) = None"
    using assms(2,4)
    by (simp add: GenerateOTP_success_state [OF assms(1)] m redis_live_set_later
        redis_ttl_minutes generateRandomOTP_frame)
  have p: "OTP_DefaultOTP cfg \<noteq> [] \<or> 0 \<le> OTP_Length cfg"
    using GenerateOTP_Inr [OF assms(1)] by (auto simp: generateRandomOTP_eq split: if_splits)
  obtain code' where g: "fst (generateRandomOTP cfg (?s'\<lparr>redis_faults := drop 1 (redis_faults ?s')\<rparr>)) = Inr code'"
    using generateRandomOTP_total [OF p] by blast
  then have g': "generateRandomOTP cfg (?s'\<lparr>redis_faults := drop 1 (redis_faults ?s')\<rparr>) =
      (Inr code', snd (generateRandomOTP cfg (?s'\<lparr>redis_faults := drop 1 (redis_faults ?s')\<rparr>)))"
    by (metis prod.collapse)
  have f: "\<not> fails_at 0 (redis_faults ?s')" "\<not> fails_at 1 (redis_faults ?s')" "\<not> fails_at 2 (redis_faults ?s')"
    using assms(5-7) by simp_all
  show ?thesis
    using GenerateOTP_ok [OF f l g', of targetType'] by auto
qed

text \<open>
  A rate limit of 0 minutes is no cooldown of length 0: go-redis sets a key without
  expiry for a zero expiration, so the rate-limit key stays and every later call for the
  target fails.
\<close>

lemma redis_live_set_forever:
  assumes "d \<le> 0" "d \<noteq> - 1"
  shows "redis_live ((redis_set k v d s)\<lparr>now := t\<rparr>) k = Some v"
  using assms by (simp add: redis_live_def redis_data_set)

lemma zero_rate_limit_blocks_forever:
  assumes "fst (GenerateOTP cfg target targetType s) = Inr code"
      and "OTP_RateLimit cfg = 0"
      and "\<not> fails_at 0 fs"
  shows "fst (GenerateOTP cfg' target targetType'
           ((snd (GenerateOTP cfg target targetType s))\<lparr>now := t, redis_faults := fs\<rparr>))
         = Inl models_ErrOTPExpired"
proof -
  let ?s' = "(snd (GenerateOTP cfg target targetType s))\<lparr>now := t, redis_faults := fs\<rparr>"
  have m: "minutes (OTP_RateLimit cfg) = 0" using assms(2) by (simp add: minutes_def)
  have "redis_live ?s' (rateLimitKey target) \<noteq> None"
    by (simp add: GenerateOTP_success_state [OF assms(1)] m redis_live_set_forever)
  moreover have "\<not> fails_at 0 (redis_faults ?s')" using assms(3) by simp
  ultimately show ?thesis
    using GenerateOTP_limited [of ?s' target cfg' targetType'] by simp
qed

lemma redis_live_set_same: "redis_live (redis_set k v d s) k = Some v"
  using redis_ttl_pos [of d]
  by (auto simp: redis_live_def redis_data_set split: option.splits)

lemma redis_live_set_other:
  "k' \<noteq> k \<Longrightarrow> redis_live (redis_set k v d s) k' = redis_live s k'"
  by (simp add: redis_live_def redis_data_set split: option.split prod.split)

lemma sample_generated_faults:
  "redis_faults (snd (GenerateOTP default_config sample_target ''customer'' sample_world)) = []"
  unfolding sample_generate by (simp add: sample_world_def)

lemma sample_generated_customers:
  "customers (snd (GenerateOTP default_config sample_target ''customer'' sample_world))
     = [sample_uuid \<mapsto> sample_customer]"
  unfolding sample_generate by (simp add: sample_world_def)

text \<open>
  C3.  The second of two \<open>GenerateOTP\<close> calls for the same target within the cooldown
  fails, generates no code and leaves the cache as it was; the error it returns is
  \<open>models.ErrOTPExpired\<close>, where the claim requires \<open>RateLimitExceeded\<close>
  (\<open>service.ErrRateLimitExceeded\<close> is declared in the same file and never returned).
\<close>

theorem second_generate_returns_otp_expired:
  "fst (GenerateOTP default_config sample_target ''customer'' sample_world) = Inr ''123456'' \<and>
   fst (GenerateOTP default_config sample_target ''customer''
          (snd (GenerateOTP default_config sample_target ''customer'' sample_world)))
     = Inl models_ErrOTPExpired \<and>
   redis_data (snd (GenerateOTP default_config sample_target ''customer''
          (snd (GenerateOTP default_config sample_target ''customer'' sample_world))))
     = redis_data (snd (GenerateOTP default_config sample_target ''customer'' sample_world))"
proof -
  let ?s1 = "snd (GenerateOTP default_config sample_target ''customer'' sample_world)"
  have f: "\<not> fails_at 0 (redis_faults ?s1)"
    by (simp add: sample_generated_faults)
  have l: "redis_live ?s1 (rateLimitKey sample_target) \<noteq> None"
    by (simp add: sample_generate redis_live_set_same)
  show ?thesis
    by (simp add: GenerateOTP_limited [OF f l]) (simp add: sample_generate)
qed

lemma key_distinct:
  "targetType \<noteq> ''ratelimit'' \<Longrightarrow> otpKey targetType target \<noteq> rateLimitKey target"
proof
  assume n: "targetType \<noteq> ''ratelimit''" and e: "otpKey targetType target = rateLimitKey target"
  from e have "(targetType @ '':'') @ target = ''ratelimit:'' @ target"
    by (simp add: otpKey_def rateLimitKey_def)
  then have "targetType @ '':'' = ''ratelimit:''" by (simp only: append_same_eq)
  then have "targetType @ '':'' = ''ratelimit'' @ '':''" by simp
  then have "targetType = ''ratelimit''" by (simp only: append_same_eq)
  with n show False by simp
qed

section \<open>Generate, then verify\<close>

text \<open>
  C5.  \<open>GenerateOTP\<close> for the sample customer under the default configuration returns
  \<open>123456\<close>; \<open>redisClient.Set\<close> has stored its JSON encoding, the code between
  double quotes; \<open>VerifyOTP\<close> with the returned code reads that back through
  \<open>redisClient.Get\<close>, which does not decode, finds it different from the submitted
  code and fails with \<open>models.ErrInvalidOTP\<close>; the customer stays inactive.  The claim
  requires success and an active account.
\<close>

theorem generate_then_verify_rejected:
  "fst (GenerateOTP default_config sample_target ''customer'' sample_world) = Inr ''123456'' \<and>
   fst (VerifyOTP sample_Parse sample_target ''customer'' ''123456''
          (snd (GenerateOTP default_config sample_target ''customer'' sample_world)))
     = (False, Some models_ErrInvalidOTP) \<and>
   map_option customer_IsActive
     (customers (snd (VerifyOTP sample_Parse sample_target ''customer'' ''123456''
          (snd (GenerateOTP default_config sample_target ''customer'' sample_world)))) sample_uuid)
     = Some False"
proof -
  let ?s1 = "snd (GenerateOTP default_config sample_target ''customer'' sample_world)"
  have l: "redis_live ?s1 (otpKey ''customer'' sample_target) = Some (json_Marshal ''123456'')"
    by (simp add: sample_generate redis_live_set_other [OF key_distinct] redis_live_set_same)
  have j: "json_Marshal ''123456'' = CHR 0x22 # ''123456'' @ [CHR 0x22]"
    by (simp add: json_Marshal_def escape_ascii_def htmlSafe_def)
  have f: "redis_faults ?s1 = []" by (simp add: sample_generated_faults)
  have c: "customers ?s1 sample_uuid = Some sample_customer"
    by (simp add: sample_generated_customers)
  show ?thesis
    using l f c
    by (simp add: VerifyOTP_def redisClient_Get_eq j sample_customer_def) (simp add: sample_generate)
qed

text \<open>
  The same for every configuration, target and state: the JSON encoding of a string is
  longer than the string, so the code \<open>GenerateOTP\<close> returns never equals what the
  cache holds for it, and verifying it fails.  (For target type \<open>ratelimit\<close> the OTP key
  is the rate-limit key, which the second write overwrites.)
\<close>

lemma utf8_len_pos: "1 \<le> utf8_len bs"
  by (simp add: utf8_len_def split: list.split)

lemma escape_ascii_length: "1 \<le> length (escape_ascii c)"
  by (simp add: escape_ascii_def Let_def)

lemma escape_rune_length: "length r \<le> length (escape_rune r)"
  by (auto simp: escape_rune_def)

lemma json_escape_length: "length v \<le> length (json_escape v)"
proof (induction v rule: json_escape.induct)
  case 1
  show ?case by simp
next
  case (2 c cs)
  show ?case
  proof (cases "(of_char c :: nat) < 128")
    case True
    with "2.IH"(1) escape_ascii_length [of c] show ?thesis by simp
  next
    case False
    define n where "n = utf8_len (map of_char (take 4 (c # cs)))"
    have n: "1 \<le> n" unfolding n_def by (rule utf8_len_pos)
    have ih: "length (drop (n - 1) cs) \<le> length (json_escape (drop (n - 1) cs))"
      using "2.IH"(2) [OF False n_def [symmetric, THEN sym]] by simp
    have "length (take n (c # cs)) + length (drop (n - 1) cs) = Suc (length cs)"
      using n by (cases n) auto
    moreover have "length (take n (c # cs)) \<le> length (escape_rune (take n (c # cs)))"
      by (rule escape_rune_length)
    ultimately have "Suc (length cs) \<le> length (escape_rune (take n (c # cs))) + length (json_escape (drop (n - 1) cs))"
      using ih by linarith
    with False show ?thesis by (simp add: n_def Let_def)
  qed
qed

lemma json_Marshal_neq: "json_Marshal v \<noteq> v"
proof
  assume "json_Marshal v = v"
  then have "length (json_Marshal v) = length v" by simp
  with json_escape_length [of v] show False by (simp add: json_Marshal_def)
qed

lemma json_Marshal_nonempty: "json_Marshal v \<noteq> []"
  by (simp add: json_Marshal_def)

lemma generate_then_verify_fails:
  assumes "fst (GenerateOTP cfg target targetType s) = Inr code"
      and "targetType \<noteq> ''ratelimit''"
  shows "fst (fst (VerifyOTP P target targetType code
           ((snd (GenerateOTP cfg target targetType s))\<lparr>now := t, redis_faults := fs, db_faults := gs\<rparr>)))
         = False"
proof -
  let ?s' = "(snd (GenerateOTP cfg target targetType s))\<lparr>now := t, redis_faults := fs, db_faults := gs\<rparr>"
  have "\<exists>e. redis_data ?s' (otpKey targetType target) = Some (json_Marshal code, e)"
    using key_distinct [OF assms(2), of target]
    by (simp add: GenerateOTP_success_state [OF assms(1)] redis_data_set)
  then have "redis_live ?s' (otpKey targetType target) = None \<or>
             redis_live ?s' (otpKey targetType target) = Some (json_Marshal code)"
    by (auto simp: redis_live_def split: option.splits)
  then show ?thesis
  proof
    assume "redis_live ?s' (otpKey targetType target) = None"
    then show ?thesis by (simp add: VerifyOTP_absent)
  next
    assume l: "redis_live ?s' (otpKey targetType target) = Some (json_Marshal code)"
    show ?thesis
      using l json_Marshal_neq [of code] json_Marshal_nonempty [of code]
      by (simp add: VerifyOTP_def redisClient_Get_eq)
  qed
qed

text \<open>
  Activation itself works: when the cache holds the submitted code as it is (as
  \<open>redisClient.SetOTP\<close> would store it), the target parses, the account exists and
  the round trips succeed, \<open>VerifyOTP\<close> returns true and the account is active.
\<close>

lemma verify_activates:
  assumes "redis_live s (otpKey targetType target) = Some otp" "otp \<noteq> []"
      and "\<not> fails_at 0 (redis_faults s)" "\<not> fails_at 1 (redis_faults s)"
      and "\<not> fails_at 0 (db_faults s)" "\<not> fails_at 1 (db_faults s)"
      and "P target = Some uid" "account_found targetType uid s"
  shows "fst (VerifyOTP P target targetType otp s) = (True, None) \<and>
         (if targetType = ''trainer''
          then map_option trainer_IsActive (trainers (snd (VerifyOTP P target targetType otp s)) uid)
                 = Some True
          else map_option customer_IsActive (customers (snd (VerifyOTP P target targetType otp s)) uid)
                 = Some True)"
proof -
  have a: "fst (VerifyOTP P target targetType otp s) = (True, None)"
    using assms by (simp add: VerifyOTP_matched)
  have b: "(if targetType = ''trainer''
          then map_option trainer_IsActive (trainers (snd (VerifyOTP P target targetType otp s)) uid)
                 = Some True
          else map_option customer_IsActive (customers (snd (VerifyOTP P target targetType otp s)) uid)
                 = Some True)"
  proof (cases "targetType = ''trainer''")
    case True
    with assms show ?thesis
      by (simp add: VerifyOTP_def redisClient_Get_eq redisClient_Delete_eq fails_at_drop
          activateUser_def TrainerRepository_GetByID_def TrainerRepository_Update_def
          db_roundtrip_eq account_found_def redis_del_def split: option.splits)
  next
    case False
    with assms show ?thesis
      by (simp add: VerifyOTP_def redisClient_Get_eq redisClient_Delete_eq fails_at_drop
          activateUser_def CustomerRepository_GetByID_def CustomerRepository_Update_def
          db_roundtrip_eq account_found_def redis_del_def split: option.splits)
  qed
  from a b show ?thesis by simp
qed

section \<open>Verification on a cache miss\<close>

lemma auth_VerifyOTP_miss:
  assumes "redis_live s (authKey userID otpType) = None"
  shows "fst (auth_VerifyOTP userID code otpType s) =
           (if \<not> fails_at 0 (db_faults s) \<and> list_ex (valid_otp userID code otpType (now s)) (otps s)
            then (True, None) else (False, Some ErrInvalidOrExpired))"
  using assms
  by (simp add: auth_VerifyOTP_def cache_Get_def redis_roundtrip_eq db_roundtrip_eq
      case_prod_beta Let_def)

text \<open>
  C1 (as amended).  When the OTP cache key is absent and the read reaches Redis,
  \<open>OTPService.VerifyOTP\<close> fails with \<open>models.ErrOTPExpired\<close> without consulting a
  durable store, whatever rows exist, and changes nothing.  The fallback to the durable
  store is in \<open>auth.VerifyOTP\<close>: on a cache miss it looks for a row of the user with
  the submitted code and the type that is unused and not expired, succeeds when the
  query finds one, and otherwise fails with the one error "invalid or expired OTP",
  be the row missing, used or expired; it raises neither \<open>ErrInvalidOTP\<close> nor
  \<open>ErrOTPExpired\<close>.
\<close>

theorem absent_key_verification:
  "(redis_live s (otpKey targetType target) = None \<and> \<not> fails_at 0 (redis_faults s) \<longrightarrow>
      VerifyOTP uuid_Parse target targetType otp s =
        ((False, Some models_ErrOTPExpired), s\<lparr>redis_faults := drop 1 (redis_faults s)\<rparr>)) \<and>
   (redis_live s (authKey userID otpType) = None \<longrightarrow>
      fst (auth_VerifyOTP userID code otpType s) =
        (if \<not> fails_at 0 (db_faults s) \<and> list_ex (valid_otp userID code otpType (now s)) (otps s)
         then (True, None) else (False, Some ErrInvalidOrExpired)))"
  by (simp add: VerifyOTP_absent auth_VerifyOTP_miss)

text \<open>
  The claim as stated fails: with no cache key and no row at all,
  \<open>OTPService.VerifyOTP\<close> returns \<open>models.ErrOTPExpired\<close>, not \<open>ErrInvalidOTP\<close>.
\<close>

theorem absent_key_verification_counterexample:
  "redis_data sample_world (otpKey ''customer'' sample_target) = None \<and>
   otps sample_world = [] \<and>
   fst (VerifyOTP sample_Parse sample_target ''customer'' ''123456'' sample_world)
     = (False, Some models_ErrOTPExpired)"
proof -
  have l: "redis_live sample_world (otpKey ''customer'' sample_target) = None"
    by (simp add: redis_live_def sample_world_def)
  show ?thesis
    by (simp add: VerifyOTP_absent [OF l]) (simp add: sample_world_def)
qed

theorem absent_key_verification_witness:
  "redis_live sample_world (otpKey ''customer'' sample_target) = None \<and>
   \<not> fails_at 0 (redis_faults sample_world) \<and>
   fst (VerifyOTP sample_Parse sample_target ''customer'' ''123456'' sample_world)
     = (False, Some models_ErrOTPExpired) \<and>
   redis_live (otp_world 0) (authKey sample_uuid ''email'') = None \<and>
   fst (auth_VerifyOTP sample_uuid ''123456'' ''email'' (otp_world 0)) = (True, None) \<and>
   fst (auth_VerifyOTP sample_uuid ''000000'' ''email'' (otp_world 0)) = (False, Some ErrInvalidOrExpired) \<and>
   redis_live (otp_world 300000000000) (authKey sample_uuid ''email'') = None \<and>
   fst (auth_VerifyOTP sample_uuid ''123456'' ''email'' (otp_world 300000000000))
     = (False, Some ErrInvalidOrExpired)"
proof -
  have a: "redis_live sample_world (otpKey ''customer'' sample_target) = None"
    by (simp add: redis_live_def sample_world_def)
  have b: "\<not> fails_at 0 (redis_faults sample_world)" by (simp add: sample_world_def)
  have c: "redis_live (otp_world t) (authKey sample_uuid ''email'') = None" for t
    by (simp add: redis_live_def otp_world_def sample_world_def)
  have d: "db_faults (otp_world t) = []" "otps (otp_world t) = [sample_otp]" "now (otp_world t) = t" for t
    by (simp_all add: otp_world_def sample_world_def)
  have v: "valid_otp sample_uuid ''123456'' ''email'' 0 sample_otp"
      "\<not> valid_otp sample_uuid ''000000'' ''email'' 0 sample_otp"
      "\<not> valid_otp sample_uuid ''123456'' ''email'' 300000000000 sample_otp"
    by (simp_all add: valid_otp_def sample_otp_def)
  show ?thesis
    using absent_key_verification [of sample_world "''customer''" sample_target sample_Parse "''123456''"
        sample_uuid "''email''" "''123456''"]
      absent_key_verification [of "otp_world 0" "''customer''" sample_target sample_Parse "''123456''"
        sample_uuid "''email''" "''123456''"]
      absent_key_verification [of "otp_world 0" "''customer''" sample_target sample_Parse "''123456''"
        sample_uuid "''email''" "''000000''"]
      absent_key_verification [of "otp_world 300000000000" "''customer''" sample_target sample_Parse "''123456''"
        sample_uuid "''email''" "''123456''"]
      a b c d v
    by simp
qed

end
